theory Spec2Isabelle
  imports Complex_Main "HOL-Library.Sublist" "HOL-Library.AList"
begin

section \<open>Values, files and the clock\<close>

text \<open>
  The two tools of the repository that keep state on disk, \<^verbatim>\<open>tools/memory_tool.py\<close>
  (class \<^verbatim>\<open>MemoryTool\<close>) and \<^verbatim>\<open>tools/web_search.py\<close> (class \<^verbatim>\<open>WebSearchTool\<close>),
  exchange JSON documents with the file system and stamp them with \<^verbatim>\<open>time.time()\<close>.

  A JSON value is what \<^verbatim>\<open>json.load\<close> hands to Python: \<^verbatim>\<open>None\<close>, a bool, an int, a
  float, a str, a list or a dict. A dict keeps its keys in insertion order, so it is an
  association list. Floats are modelled as reals.
\<close>

datatype json =
    JNull
  | JBool bool
  | JInt int
  | JFloat real
  | JStr string
  | JArr "json list"
  | JObj "(string \<times> json) list"

text \<open>The newline and the single quote, as they occur in the texts the tools build.\<close>

abbreviation nl :: string where
  "nl \<equiv> [CHR 0x0A]"

abbreviation sq :: string where
  "sq \<equiv> [CHR 0x27]"

text \<open>
  A file holds either the text of a JSON value (what \<^verbatim>\<open>json.dump\<close> writes and
  \<^verbatim>\<open>json.load\<close> reads back), or text that \<^verbatim>\<open>json.load\<close> rejects; the string is the
  message of the \<^verbatim>\<open>JSONDecodeError\<close> it raises. Writing a file is taken to succeed,
  but for the write in the load of the memory store, whose failure is modelled there.
\<close>

datatype disk_file = Doc json | Garbage string

datatype pyerr =
    FileNotFoundError string
  | JSONDecodeError string
  | AttributeError string
  | TypeError string

fun exc_str :: "pyerr \<Rightarrow> string" where
  "exc_str (FileNotFoundError m) = m"
| "exc_str (JSONDecodeError m) = m"
| "exc_str (AttributeError m) = m"
| "exc_str (TypeError m) = m"

text \<open>
  The world outside the objects: the files by path, and the clock. Every call of
  \<^verbatim>\<open>time.time()\<close> is one reading; \<open>clock w n\<close> is reading number \<open>n\<close> and
  \<open>ticks w\<close> counts the readings made so far. Nothing is assumed about the readings.
\<close>

record world =
  files :: "string \<Rightarrow> disk_file option"
  clock :: "nat \<Rightarrow> real"
  ticks :: nat

definition now :: "world \<Rightarrow> real" where
  "now w = clock w (ticks w)"

definition time_time :: "world \<Rightarrow> real \<times> world" where
  "time_time w = (now w, w\<lparr>ticks := Suc (ticks w)\<rparr>)"

definition os_path_exists :: "string \<Rightarrow> world \<Rightarrow> bool" where
  "os_path_exists path w = (files w path \<noteq> None)"

text \<open>\<^verbatim>\<open>with open(path, 'r') as f: json.load(f)\<close> on a path that exists.\<close>

definition json_load :: "string \<Rightarrow> world \<Rightarrow> pyerr + json" where
  "json_load path w =
     (case files w path of
        Some (Doc j) \<Rightarrow> Inr j
      | Some (Garbage m) \<Rightarrow> Inl (JSONDecodeError m)
      | None \<Rightarrow>
          Inl (FileNotFoundError (''[Errno 2] No such file or directory: '' @ sq @ path @ sq)))"

text \<open>\<^verbatim>\<open>with open(path, 'w') as f: json.dump(j, f)\<close>: the file is rewritten whole.\<close>

definition json_dump :: "json \<Rightarrow> string \<Rightarrow> world \<Rightarrow> world" where
  "json_dump j path w = w\<lparr>files := (files w)(path \<mapsto> Doc j)\<rparr>"

subsection \<open>Python's view of a JSON value\<close>

fun type_name :: "json \<Rightarrow> string" where
  "type_name JNull = ''NoneType''"
| "type_name (JBool b) = ''bool''"
| "type_name (JInt i) = ''int''"
| "type_name (JFloat r) = ''float''"
| "type_name (JStr s) = ''str''"
| "type_name (JArr xs) = ''list''"
| "type_name (JObj kvs) = ''dict''"

text \<open>Truth value of a value in \<^verbatim>\<open>if x:\<close>.\<close>

fun truthy :: "json \<Rightarrow> bool" where
  "truthy JNull = False"
| "truthy (JBool b) = b"
| "truthy (JInt i) = (i \<noteq> 0)"
| "truthy (JFloat r) = (r \<noteq> 0)"
| "truthy (JStr s) = (s \<noteq> [])"
| "truthy (JArr xs) = (xs \<noteq> [])"
| "truthy (JObj kvs) = (kvs \<noteq> [])"

text \<open>\<^verbatim>\<open>d.get(k, default)\<close>: only a dict has the method.\<close>

fun dict_get :: "json \<Rightarrow> string \<Rightarrow> json \<Rightarrow> pyerr + json" where
  "dict_get (JObj kvs) k d = Inr (case map_of kvs k of Some v \<Rightarrow> v | None \<Rightarrow> d)"
| "dict_get j k d =
     Inl (AttributeError (sq @ type_name j @ sq @ '' object has no attribute '' @ sq @ ''get'' @ sq))"

text \<open>The right operand of \<^verbatim>\<open>time.time() - x\<close>: a float minus an int, a float or a bool.\<close>

fun float_minus :: "real \<Rightarrow> json \<Rightarrow> pyerr + real" where
  "float_minus t (JInt i) = Inr (t - real_of_int i)"
| "float_minus t (JFloat r) = Inr (t - r)"
| "float_minus t (JBool b) = Inr (t - (if b then 1 else 0))"
| "float_minus t j =
     Inl (TypeError (''unsupported operand type(s) for -: '' @ sq @ ''float'' @ sq @ '' and '' @
                     sq @ type_name j @ sq))"

text \<open>What a \<^verbatim>\<open>for\<close> loop iterates over.\<close>

fun py_iter :: "json \<Rightarrow> pyerr + json list" where
  "py_iter (JArr xs) = Inr xs"
| "py_iter (JStr s) = Inr (map (\<lambda>c. JStr [c]) s)"
| "py_iter (JObj kvs) = Inr (map (\<lambda>kv. JStr (fst kv)) kvs)"
| "py_iter j = Inl (TypeError (sq @ type_name j @ sq @ '' object is not iterable''))"

text \<open>
  A Python string is the list of the bytes of its UTF-8 encoding.

  Library functions taken as parameters: the hexadecimal MD5 digest of the encoded query
  (\<^verbatim>\<open>hashlib.md5(query.encode()).hexdigest()\<close>), \<^verbatim>\<open>str()\<close> of a value that is not a
  string, as an f-string inserts it, and \<^verbatim>\<open>str.lower()\<close>, which folds the cased letters
  of all of Unicode and looks at the letters around the one it folds.
\<close>

record pylib =
  md5_hexdigest :: "string \<Rightarrow> string"
  py_str :: "json \<Rightarrow> string"
  str_lower :: "string \<Rightarrow> string"

fun fmt :: "pylib \<Rightarrow> json \<Rightarrow> string" where
  "fmt L (JStr s) = s"
| "fmt L j = py_str L j"

text \<open>Decimal digits of a number, as an f-string prints a loop index.\<close>

definition digit_char :: "nat \<Rightarrow> char" where
  "digit_char d = ''0123456789'' ! d"

function show_nat :: "nat \<Rightarrow> string" where
  "show_nat n =
     (if n < 10 then [digit_char n]
      else show_nat (n div 10) @ [digit_char (n mod 10)])"
  by pat_completeness auto
termination
  by (relation "measure id") auto

declare show_nat.simps [simp del]

text \<open>
  \<^verbatim>\<open>for i, x in enumerate(xs, 1): result += f"{i}. {x}\n"\<close>, the listing that
  \<^verbatim>\<open>retrieve_facts\<close> and \<^verbatim>\<open>retrieve_entity\<close> build.
\<close>

fun numbered :: "nat \<Rightarrow> string list \<Rightarrow> string" where
  "numbered i [] = []"
| "numbered i (x # xs) = show_nat i @ ''. '' @ x @ nl @ numbered (Suc i) xs"

text \<open>
  \<^verbatim>\<open>a in b\<close> on strings: \<open>a\<close> occurs in \<open>b\<close> as a run of adjacent characters. On
  the bytes of two encoded strings this is the same test as on their characters.
\<close>

fun py_in_str :: "string \<Rightarrow> string \<Rightarrow> bool" where
  "py_in_str q [] = (q = [])"
| "py_in_str q (c # cs) = (prefix q (c # cs) \<or> py_in_str q cs)"


section \<open>The memory store (\<^verbatim>\<open>tools/memory_tool.py\<close>)\<close>

text \<open>
  \<^verbatim>\<open>self.memory\<close> is a dict with a fixed set of keys, built by \<^verbatim>\<open>_initialize_memory\<close>;
  the dicts stored in it are built by the dict displays of \<^verbatim>\<open>store_fact\<close>,
  \<^verbatim>\<open>store_entity_information\<close>, \<^verbatim>\<open>log_task\<close> and \<^verbatim>\<open>add_reflection\<close>. Each is a
  record here. The two dicts keyed by a name (entities, tasks) are association lists in
  insertion order; \<open>map_of\<close> looks a name up and \<open>AList.update\<close> is the assignment
  \<^verbatim>\<open>d[k] = v\<close> (in place for a known key, at the end for a new one). A reflection has
  the two keys of a fact.
\<close>

record fact =
  content :: string
  timestamp :: real

record entity =
  information :: "string list"
  first_mentioned :: real
  e_last_updated :: real

record history_entry =
  h_status :: string
  h_details :: string
  h_timestamp :: real

record task =
  status :: string
  history :: "history_entry list"
  created :: real
  t_last_updated :: real

record memory_dict =
  facts :: "fact list"
  entities :: "(string \<times> entity) list"
  conversations :: "json list"
  tasks :: "(string \<times> task) list"
  reflections :: "fact list"
  last_updated :: real

record MemoryTool =
  memory_file :: string
  memory :: memory_dict

subsection \<open>The dict as a JSON document\<close>

text \<open>The document \<^verbatim>\<open>json.dump\<close> writes for each of the dicts, key by key as the code builds them.\<close>

definition json_of_fact :: "fact \<Rightarrow> json" where
  "json_of_fact f = JObj [(''content'', JStr (content f)), (''timestamp'', JFloat (timestamp f))]"

definition json_of_entity :: "entity \<Rightarrow> json" where
  "json_of_entity e =
     JObj [(''information'', JArr (map JStr (information e))),
           (''first_mentioned'', JFloat (first_mentioned e)),
           (''last_updated'', JFloat (e_last_updated e))]"

definition json_of_history_entry :: "history_entry \<Rightarrow> json" where
  "json_of_history_entry h =
     JObj [(''status'', JStr (h_status h)),
           (''details'', JStr (h_details h)),
           (''timestamp'', JFloat (h_timestamp h))]"

definition json_of_task :: "task \<Rightarrow> json" where
  "json_of_task t =
     JObj [(''status'', JStr (status t)),
           (''history'', JArr (map json_of_history_entry (history t))),
           (''created'', JFloat (created t)),
           (''last_updated'', JFloat (t_last_updated t))]"

definition json_of_memory :: "memory_dict \<Rightarrow> json" where
  "json_of_memory m =
     JObj [(''facts'', JArr (map json_of_fact (facts m))),
           (''entities'', JObj (map (\<lambda>kv. (fst kv, json_of_entity (snd kv))) (entities m))),
           (''conversations'', JArr (conversations m)),
           (''tasks'', JObj (map (\<lambda>kv. (fst kv, json_of_task (snd kv))) (tasks m))),
           (''reflections'', JArr (map json_of_fact (reflections m))),
           (''last_updated'', JFloat (last_updated m))]"

text \<open>
  Reading a document back as the records: the inverse of the functions above, defined on
  the documents of exactly that shape.
\<close>

definition str_of_json :: "json \<Rightarrow> string option" where
  "str_of_json j = (case j of JStr s \<Rightarrow> Some s | _ \<Rightarrow> None)"

definition fact_of_json :: "json \<Rightarrow> fact option" where
  "fact_of_json j =
     (case j of
        JObj [(k1, JStr c), (k2, JFloat t)] \<Rightarrow>
          if k1 = ''content'' \<and> k2 = ''timestamp''
          then Some \<lparr>content = c, timestamp = t\<rparr> else None
      | _ \<Rightarrow> None)"

definition entity_of_json :: "json \<Rightarrow> entity option" where
  "entity_of_json j =
     (case j of
        JObj [(k1, JArr xs), (k2, JFloat a), (k3, JFloat b)] \<Rightarrow>
          if k1 = ''information'' \<and> k2 = ''first_mentioned'' \<and> k3 = ''last_updated''
          then (case those (map str_of_json xs) of
                  Some ss \<Rightarrow> Some \<lparr>information = ss, first_mentioned = a, e_last_updated = b\<rparr>
                | None \<Rightarrow> None)
          else None
      | _ \<Rightarrow> None)"

definition history_entry_of_json :: "json \<Rightarrow> history_entry option" where
  "history_entry_of_json j =
     (case j of
        JObj [(k1, JStr s), (k2, JStr d), (k3, JFloat t)] \<Rightarrow>
          if k1 = ''status'' \<and> k2 = ''details'' \<and> k3 = ''timestamp''
          then Some \<lparr>h_status = s, h_details = d, h_timestamp = t\<rparr> else None
      | _ \<Rightarrow> None)"

definition task_of_json :: "json \<Rightarrow> task option" where
  "task_of_json j =
     (case j of
        JObj [(k1, JStr s), (k2, JArr hs), (k3, JFloat c), (k4, JFloat u)] \<Rightarrow>
          if k1 = ''status'' \<and> k2 = ''history'' \<and> k3 = ''created'' \<and> k4 = ''last_updated''
          then (case those (map history_entry_of_json hs) of
                  Some h \<Rightarrow> Some \<lparr>status = s, history = h, created = c, t_last_updated = u\<rparr>
                | None \<Rightarrow> None)
          else None
      | _ \<Rightarrow> None)"

definition named_of_json :: "(json \<Rightarrow> 'a option) \<Rightarrow> string \<times> json \<Rightarrow> (string \<times> 'a) option" where
  "named_of_json f kv = (case f (snd kv) of Some v \<Rightarrow> Some (fst kv, v) | None \<Rightarrow> None)"

definition memory_of_json :: "json \<Rightarrow> memory_dict option" where
  "memory_of_json j =
     (case j of
        JObj [(k1, JArr fs), (k2, JObj es), (k3, JArr cs), (k4, JObj ts), (k5, JArr rs),
              (k6, JFloat u)] \<Rightarrow>
          if k1 = ''facts'' \<and> k2 = ''entities'' \<and> k3 = ''conversations'' \<and> k4 = ''tasks''
             \<and> k5 = ''reflections'' \<and> k6 = ''last_updated''
          then (case (those (map fact_of_json fs), those (map (named_of_json entity_of_json) es),
                      those (map (named_of_json task_of_json) ts), those (map fact_of_json rs)) of
                  (Some f, Some e, Some t, Some r) \<Rightarrow>
                    Some \<lparr>facts = f, entities = e, conversations = cs, tasks = t,
                          reflections = r, last_updated = u\<rparr>
                | _ \<Rightarrow> None)
          else None
      | _ \<Rightarrow> None)"

subsection \<open>Loading and saving\<close>

text \<open>
  \<^verbatim>\<open>_save_memory\<close>: stamps the dict it is given and rewrites the file. The dict is
  \<^verbatim>\<open>self.memory\<close> itself (or the one \<^verbatim>\<open>_initialize_memory\<close> is about to return), so the
  stamp is on the caller's dict too: the stamped dict is returned. (A leading underscore
  is not part of a name here: \<open>save_memory\<close> is \<^verbatim>\<open>_save_memory\<close>, and so on.)
\<close>

definition save_memory :: "string \<Rightarrow> memory_dict \<Rightarrow> world \<Rightarrow> memory_dict \<times> world" where
  "save_memory path m w =
     (let (t, w1) = time_time w;
          m1 = m\<lparr>last_updated := t\<rparr>
      in (m1, json_dump (json_of_memory m1) path w1))"

text \<open>\<^verbatim>\<open>_initialize_memory\<close>: the new dict, with the reading of the clock it is built with.\<close>

definition empty_memory :: "real \<Rightarrow> memory_dict" where
  "empty_memory t =
     \<lparr>facts = [], entities = [], conversations = [], tasks = [], reflections = [],
      last_updated = t\<rparr>"

definition initialize_memory :: "string \<Rightarrow> world \<Rightarrow> memory_dict \<times> world" where
  "initialize_memory path w =
     (let (t, w1) = time_time w;
          m = empty_memory t
      in save_memory path m w1)"

text \<open>
  Whether \<^verbatim>\<open>open(path, 'w')\<close> succeeds depends on the directory of the path and on
  permissions, which the world does not hold. For the load it is a parameter: \<open>E path\<close>
  is the error that opening \<open>path\<close> for writing raises, if it raises. The call of
  \<^verbatim>\<open>_initialize_memory\<close> in \<^verbatim>\<open>_load_memory\<close> then either writes the new dict, or has read
  the clock twice (for the dict and in \<^verbatim>\<open>_save_memory\<close>) when \<^verbatim>\<open>open\<close> raises; nothing
  catches that error. (\<open>save_memory\<close>, \<open>initialize_memory\<close> and the tools below are
  the calls whose write succeeds; a call whose write fails raises and returns nothing.)
\<close>

type_synonym write_errors = "string \<Rightarrow> pyerr option"

definition initialize_memory_or_raise ::
  "write_errors \<Rightarrow> string \<Rightarrow> world \<Rightarrow> (pyerr + json) \<times> world" where
  "initialize_memory_or_raise E path w =
     (case E path of
        None \<Rightarrow> (let (m, w1) = initialize_memory path w in (Inr (json_of_memory m), w1))
      | Some e \<Rightarrow> (Inl e, w\<lparr>ticks := Suc (Suc (ticks w))\<rparr>))"

text \<open>
  \<^verbatim>\<open>_load_memory\<close>: the bare \<^verbatim>\<open>except:\<close> turns every error of the read into a call of
  \<^verbatim>\<open>_initialize_memory\<close>, which is made outside the \<^verbatim>\<open>try\<close>. What is returned is the
  loaded document as it is, whatever it holds, or the new dict.
\<close>

definition load_memory :: "write_errors \<Rightarrow> string \<Rightarrow> world \<Rightarrow> (pyerr + json) \<times> world" where
  "load_memory E path w =
     (if os_path_exists path w then
        (case json_load path w of
           Inr j \<Rightarrow> (Inr j, w)
         | Inl e \<Rightarrow> initialize_memory_or_raise E path w)
      else initialize_memory_or_raise E path w)"

text \<open>
  \<^verbatim>\<open>__init__\<close> keeps the path and what \<^verbatim>\<open>_load_memory\<close> returns: the new object, as
  the pair of its two attributes.
\<close>

definition init_MemoryTool ::
  "write_errors \<Rightarrow> string \<Rightarrow> world \<Rightarrow> (pyerr + string \<times> json) \<times> world" where
  "init_MemoryTool E path w =
     (case load_memory E path w of
        (Inl e, w1) \<Rightarrow> (Inl e, w1)
      | (Inr j, w1) \<Rightarrow> (Inr (path, j), w1))"

subsection \<open>The tools\<close>

definition store_fact :: "MemoryTool \<Rightarrow> string \<Rightarrow> world \<Rightarrow> string \<times> MemoryTool \<times> world" where
  "store_fact self f w =
     (let (t, w1) = time_time w;
          m1 = (memory self)\<lparr>facts := facts (memory self) @ [\<lparr>content = f, timestamp = t\<rparr>]\<rparr>;
          (m2, w2) = save_memory (memory_file self) m1 w1
      in (''Fact stored in memory: '' @ sq @ f @ sq, self\<lparr>memory := m2\<rparr>, w2))"

definition retrieve_facts :: "pylib \<Rightarrow> MemoryTool \<Rightarrow> string option \<Rightarrow> string" where
  "retrieve_facts L self query =
     (let fs = facts (memory self) in
      if fs = [] then ''No facts stored in memory.''
      else (case query of
              Some q \<Rightarrow>
                if q \<noteq> [] then
                  (let filtered_facts = filter (\<lambda>f. py_in_str (str_lower L q) (str_lower L (content f))) fs in
                   if filtered_facts = [] then ''No facts found matching query: '' @ sq @ q @ sq
                   else ''Facts related to '' @ sq @ q @ sq @ '':'' @ nl @ nl @
                        numbered 1 (map content filtered_facts))
                else ''All stored facts:'' @ nl @ nl @ numbered 1 (map content fs)
            | None \<Rightarrow> ''All stored facts:'' @ nl @ nl @ numbered 1 (map content fs)))"

definition store_entity_information ::
  "MemoryTool \<Rightarrow> string \<Rightarrow> string \<Rightarrow> world \<Rightarrow> string \<times> MemoryTool \<times> world" where
  "store_entity_information self entity_name info w =
     (let es = entities (memory self);
          (es1, w1) =
            (case map_of es entity_name of
               None \<Rightarrow>
                 (let (t1, wa) = time_time w;
                      (t2, wb) = time_time wa
                  in (AList.update entity_name
                        \<lparr>information = [info], first_mentioned = t1, e_last_updated = t2\<rparr> es, wb))
             | Some e \<Rightarrow>
                 (let e1 = e\<lparr>information := information e @ [info]\<rparr>;
                      (t, wa) = time_time w
                  in (AList.update entity_name (e1\<lparr>e_last_updated := t\<rparr>) es, wa)));
          (m2, w2) = save_memory (memory_file self) ((memory self)\<lparr>entities := es1\<rparr>) w1
      in (''Information about '' @ sq @ entity_name @ sq @ '' stored in memory.'',
          self\<lparr>memory := m2\<rparr>, w2))"

definition retrieve_entity :: "MemoryTool \<Rightarrow> string \<Rightarrow> string" where
  "retrieve_entity self entity_name =
     (case map_of (entities (memory self)) entity_name of
        None \<Rightarrow> ''No information found for entity: '' @ sq @ entity_name @ sq
      | Some e \<Rightarrow>
          ''Information about '' @ sq @ entity_name @ sq @ '':'' @ nl @ nl @
          numbered 1 (information e))"

definition log_task ::
  "MemoryTool \<Rightarrow> string \<Rightarrow> string \<Rightarrow> string \<Rightarrow> world \<Rightarrow> string \<times> MemoryTool \<times> world" where
  "log_task self task_name st details w =
     (let ts = tasks (memory self);
          (ts1, w1) =
            (case map_of ts task_name of
               None \<Rightarrow>
                 (let (t1, wa) = time_time w;
                      (t2, wb) = time_time wa;
                      (t3, wc) = time_time wb
                  in (AList.update task_name
                        \<lparr>status = st,
                         history = [\<lparr>h_status = st, h_details = details, h_timestamp = t1\<rparr>],
                         created = t2, t_last_updated = t3\<rparr> ts, wc))
             | Some t \<Rightarrow>
                 (let ta = t\<lparr>status := st\<rparr>;
                      (t1, wa) = time_time w;
                      tb = ta\<lparr>history := history ta @
                                 [\<lparr>h_status = st, h_details = details, h_timestamp = t1\<rparr>]\<rparr>;
                      (t2, wb) = time_time wa
                  in (AList.update task_name (tb\<lparr>t_last_updated := t2\<rparr>) ts, wb)));
          (m2, w2) = save_memory (memory_file self) ((memory self)\<lparr>tasks := ts1\<rparr>) w1
      in (''Task '' @ sq @ task_name @ sq @ '' logged with status: '' @ st,
          self\<lparr>memory := m2\<rparr>, w2))"

definition add_reflection :: "MemoryTool \<Rightarrow> string \<Rightarrow> world \<Rightarrow> string \<times> MemoryTool \<times> world" where
  "add_reflection self c w =
     (let (t, w1) = time_time w;
          m1 = (memory self)\<lparr>reflections := reflections (memory self) @
                                [\<lparr>content = c, timestamp = t\<rparr>]\<rparr>;
          (m2, w2) = save_memory (memory_file self) m1 w1
      in (''Reflection added to memory.'', self\<lparr>memory := m2\<rparr>, w2))"

text \<open>The four tools that change the store, as one call each, and a run of calls.\<close>

datatype call =
    StoreFact string
  | StoreEntityInformation string string
  | LogTask string string string
  | AddReflection string

fun exec_call :: "call \<Rightarrow> MemoryTool \<Rightarrow> world \<Rightarrow> string \<times> MemoryTool \<times> world" where
  "exec_call (StoreFact f) self w = store_fact self f w"
| "exec_call (StoreEntityInformation n i) self w = store_entity_information self n i w"
| "exec_call (LogTask n s d) self w = log_task self n s d w"
| "exec_call (AddReflection c) self w = add_reflection self c w"

fun exec_calls :: "call list \<Rightarrow> MemoryTool \<Rightarrow> world \<Rightarrow> MemoryTool \<times> world" where
  "exec_calls [] self w = (self, w)"
| "exec_calls (c # cs) self w =
     (let (msg, self1, w1) = exec_call c self w in exec_calls cs self1 w1)"


section \<open>The search cache (\<^verbatim>\<open>tools/web_search.py\<close>)\<close>

record WebSearchTool =
  cache_dir :: string

text \<open>\<^verbatim>\<open>os.path.join(a, b)\<close> on a POSIX system.\<close>

definition os_path_join :: "string \<Rightarrow> string \<Rightarrow> string" where
  "os_path_join a b =
     (if b \<noteq> [] \<and> hd b = CHR ''/'' then b
      else if a = [] \<or> last a = CHR ''/'' then a @ b
      else a @ ''/'' @ b)"

definition get_cache_path :: "pylib \<Rightarrow> WebSearchTool \<Rightarrow> string \<Rightarrow> string" where
  "get_cache_path L self query =
     os_path_join (cache_dir self) (''search_'' @ md5_hexdigest L query @ ''.json'')"

text \<open>
  \<^verbatim>\<open>_get_cached_result\<close>. The result \<open>JNull\<close> is Python's \<^verbatim>\<open>None\<close>. The clock is read
  only when the file exists; an error of the read or of the arithmetic is raised to the
  caller.
\<close>

definition get_cached_result ::
  "pylib \<Rightarrow> WebSearchTool \<Rightarrow> string \<Rightarrow> world \<Rightarrow> (pyerr + json) \<times> world" where
  "get_cached_result L self query w =
     (let cache_path = get_cache_path L self query in
      if os_path_exists cache_path w then
        (case json_load cache_path w of
           Inl e \<Rightarrow> (Inl e, w)
         | Inr cached_data \<Rightarrow>
             (case dict_get cached_data ''timestamp'' (JInt 0) of
                Inl e \<Rightarrow> (Inl e, w)
              | Inr cache_time \<Rightarrow>
                  (let (t, w1) = time_time w in
                   case float_minus t cache_time of
                     Inl e \<Rightarrow> (Inl e, w1)
                   | Inr age \<Rightarrow>
                       if age < 86400 then (dict_get cached_data ''results'' JNull, w1)
                       else (Inr JNull, w1))))
      else (Inr JNull, w))"

definition cache_result :: "pylib \<Rightarrow> WebSearchTool \<Rightarrow> string \<Rightarrow> json \<Rightarrow> world \<Rightarrow> world" where
  "cache_result L self query results w =
     (let cache_path = get_cache_path L self query;
          (t, w1) = time_time w;
          cache_data = JObj [(''timestamp'', JFloat t), (''query'', JStr query),
                             (''results'', results)]
      in json_dump cache_data cache_path w1)"

text \<open>\<^verbatim>\<open>_format_results\<close>: one block per item; an item that is not a dict raises.\<close>

definition format_item :: "pylib \<Rightarrow> nat \<Rightarrow> json \<Rightarrow> pyerr + string" where
  "format_item L i item =
     (case dict_get item ''title'' (JStr ''No title'') of
        Inl e \<Rightarrow> Inl e
      | Inr title \<Rightarrow>
          (case dict_get item ''snippet'' (JStr ''No summary available'') of
             Inl e \<Rightarrow> Inl e
           | Inr snippet \<Rightarrow>
               (case dict_get item ''link'' (JStr ''No link available'') of
                  Inl e \<Rightarrow> Inl e
                | Inr link \<Rightarrow>
                    Inr (''Result '' @ show_nat i @ '':'' @ nl @
                         ''Title: '' @ fmt L title @ nl @
                         ''Summary: '' @ fmt L snippet @ nl @
                         ''URL: '' @ fmt L link @ nl @ nl))))"

fun format_items :: "pylib \<Rightarrow> nat \<Rightarrow> json list \<Rightarrow> pyerr + string" where
  "format_items L i [] = Inr []"
| "format_items L i (item # items) =
     (case format_item L i item of
        Inl e \<Rightarrow> Inl e
      | Inr s \<Rightarrow>
          (case format_items L (Suc i) items of
             Inl e \<Rightarrow> Inl e
           | Inr r \<Rightarrow> Inr (s @ r)))"

definition format_results :: "pylib \<Rightarrow> json \<Rightarrow> string \<Rightarrow> pyerr + string" where
  "format_results L results query =
     (case dict_get results ''items'' (JArr []) of
        Inl e \<Rightarrow> Inl e
      | Inr items \<Rightarrow>
          if \<not> truthy items then Inr (''No results found for: '' @ query)
          else (case py_iter items of
                  Inl e \<Rightarrow> Inl e
                | Inr xs \<Rightarrow>
                    (case format_items L 1 xs of
                       Inl e \<Rightarrow> Inl e
                     | Inr body \<Rightarrow>
                         Inr (''Search results for '' @ sq @ query @ sq @ '':'' @ nl @ nl @ body))))"

text \<open>The three simulated results that \<^verbatim>\<open>search\<close> builds for a query.\<close>

definition replace_space_plus :: "string \<Rightarrow> string" where
  "replace_space_plus s = map (\<lambda>c. if c = CHR '' '' then CHR ''+'' else c) s"

definition simulated_results :: "string \<Rightarrow> json" where
  "simulated_results query =
     JObj [(''items'', JArr [
       JObj [(''title'', JStr (''Example Result 1 for '' @ query)),
             (''snippet'', JStr (''This is a detailed information about '' @ query @
                                 '' with relevant facts and figures.'')),
             (''link'', JStr (''https://example.com/1?q='' @ replace_space_plus query))],
       JObj [(''title'', JStr (''Example Result 2 for '' @ query)),
             (''snippet'', JStr (''Additional information about '' @ query @
                                 '' including recent developments and analysis.'')),
             (''link'', JStr (''https://example.com/2?q='' @ replace_space_plus query))],
       JObj [(''title'', JStr (''Example Result 3 for '' @ query)),
             (''snippet'', JStr (''Comprehensive guide to '' @ query @
                                 '' with step-by-step instructions and explanations.'')),
             (''link'', JStr (''https://example.com/3?q='' @ replace_space_plus query))]])]"

text \<open>
  \<^verbatim>\<open>search\<close>: every exception raised inside is turned into an error text. What it
  prints on the console is left out.
\<close>

definition search_error :: "pyerr \<Rightarrow> string" where
  "search_error e = ''Error performing search: '' @ exc_str e"

definition search :: "pylib \<Rightarrow> WebSearchTool \<Rightarrow> string \<Rightarrow> world \<Rightarrow> string \<times> world" where
  "search L self query w =
     (case get_cached_result L self query w of
        (Inl e, w1) \<Rightarrow> (search_error e, w1)
      | (Inr cached_results, w1) \<Rightarrow>
          if truthy cached_results then
            (case format_results L cached_results query of
               Inl e \<Rightarrow> (search_error e, w1)
             | Inr s \<Rightarrow> (s, w1))
          else
            (let results = simulated_results query;
                 w2 = cache_result L self query results w1
             in case format_results L results query of
                  Inl e \<Rightarrow> (search_error e, w2)
                | Inr s \<Rightarrow> (s, w2)))"

section \<open>What the claims observe\<close>

text \<open>
  Case on ASCII text: the letters \<open>A\<close> to \<open>Z\<close> fold to \<open>a\<close> to \<open>z\<close>; a text is
  ASCII when every byte is below 128; and a library lowers ASCII text as Python does
  when \<^verbatim>\<open>str.lower()\<close> of an ASCII text is that text with its letters folded.
\<close>

definition ascii_lower_char :: "char \<Rightarrow> char" where
  "ascii_lower_char c =
     (case map_of (zip ''ABCDEFGHIJKLMNOPQRSTUVWXYZ'' ''abcdefghijklmnopqrstuvwxyz'') c of
        Some l \<Rightarrow> l
      | None \<Rightarrow> c)"




text \<open>The length of a task's history (0 for an unknown task), and the calls that log a given task.\<close>

definition history_length :: "MemoryTool \<Rightarrow> string \<Rightarrow> nat" where
  "history_length self n =
     (case map_of (tasks (memory self)) n of None \<Rightarrow> 0 | Some t \<Rightarrow> length (history t))"

fun is_log_task_for :: "string \<Rightarrow> call \<Rightarrow> bool" where
  "is_log_task_for n (LogTask m s d) = (m = n)"
| "is_log_task_for n c = False"

text \<open>The information stored for an entity; nothing for an unknown name.\<close>

definition entity_information :: "MemoryTool \<Rightarrow> string \<Rightarrow> string list" where
  "entity_information self n =
     (case map_of (entities (memory self)) n of None \<Rightarrow> [] | Some e \<Rightarrow> information e)"

text \<open>The confirmation each of the four tools returns.\<close>

fun confirmation :: "call \<Rightarrow> string" where
  "confirmation (StoreFact f) = ''Fact stored in memory: '' @ sq @ f @ sq"
| "confirmation (StoreEntityInformation n i) =
     ''Information about '' @ sq @ n @ sq @ '' stored in memory.''"
| "confirmation (LogTask n s d) = ''Task '' @ sq @ n @ sq @ '' logged with status: '' @ s"
| "confirmation (AddReflection c) = ''Reflection added to memory.''"

text \<open>The text \<^verbatim>\<open>search\<close> answers with when it has built the three simulated results.\<close>

definition simulated_text :: "string \<Rightarrow> string" where
  "simulated_text q =
     ''Search results for '' @ sq @ q @ sq @ '':'' @ nl @ nl @
     ''Result 1:'' @ nl @
     ''Title: Example Result 1 for '' @ q @ nl @
     ''Summary: This is a detailed information about '' @ q @ '' with relevant facts and figures.'' @ nl @
     ''URL: https://example.com/1?q='' @ replace_space_plus q @ nl @ nl @
     ''Result 2:'' @ nl @
     ''Title: Example Result 2 for '' @ q @ nl @
     ''Summary: Additional information about '' @ q @ '' including recent developments and analysis.'' @ nl @
     ''URL: https://example.com/2?q='' @ replace_space_plus q @ nl @ nl @
     ''Result 3:'' @ nl @
     ''Title: Example Result 3 for '' @ q @ nl @
     ''Summary: Comprehensive guide to '' @ q @ '' with step-by-step instructions and explanations.'' @ nl @
     ''URL: https://example.com/3?q='' @ replace_space_plus q @ nl @ nl"

subsection \<open>Sample inputs\<close>

text \<open>
  A world with no files whose clock advances 50000 seconds with every reading, a stand-in
  for the library functions, a memory tool with an empty memory, and a search tool; then
  memory tools that hold one fact, two facts and one entity, a world whose cache holds a
  fresh entry with empty results, and a world whose memory file is not JSON.
\<close>

definition sample_world :: world where
  "sample_world = \<lparr>files = Map.empty, clock = (\<lambda>n. 1000 + 50000 * real n), ticks = 0\<rparr>"

definition sample_lib :: pylib where
  "sample_lib =
     \<lparr>md5_hexdigest = (\<lambda>s. s), py_str = type_name, str_lower = map ascii_lower_char\<rparr>"

definition sample_tool :: MemoryTool where
  "sample_tool = \<lparr>memory_file = ''agent_memory.json'', memory = empty_memory 0\<rparr>"

definition sample_search :: WebSearchTool where
  "sample_search = \<lparr>cache_dir = ''.cache''\<rparr>"

definition tool_with_fact :: MemoryTool where
  "tool_with_fact =
     \<lparr>memory_file = ''agent_memory.json'',
      memory = (empty_memory 0)\<lparr>facts := [\<lparr>content = ''a'', timestamp = 0\<rparr>]\<rparr>\<rparr>"


definition tool_with_entity :: MemoryTool where
  "tool_with_entity =
     \<lparr>memory_file = ''agent_memory.json'',
      memory = (empty_memory 0)\<lparr>entities :=
        [(''Acme'', \<lparr>information = [''info1''], first_mentioned = 5, e_last_updated = 6\<rparr>)]\<rparr>\<rparr>"

definition world_with_empty_results :: world where
  "world_with_empty_results =
     sample_world\<lparr>files := [''.cache/search_q.json'' \<mapsto>
        Doc (JObj [(''timestamp'', JFloat 900), (''query'', JStr ''q''), (''results'', JObj [])])]\<rparr>"

definition world_with_garbage :: world where
  "world_with_garbage = sample_world\<lparr>files := [''agent_memory.json'' \<mapsto> Garbage ''Expecting value'']\<rparr>"

text \<open>
  A world whose memory file holds a document that is no memory; a file system in which
  every write succeeds, and one in which no path can be opened for writing because its
  directory is missing.
\<close>

definition world_with_other_document :: world where
  "world_with_other_document =
     sample_world\<lparr>files := [''agent_memory.json'' \<mapsto> Doc (JObj [(''x'', JInt 1)])]\<rparr>"

definition no_write_errors :: write_errors where
  "no_write_errors = (\<lambda>path. None)"

definition missing_directory :: write_errors where
  "missing_directory =
     (\<lambda>path. Some (FileNotFoundError (''[Errno 2] No such file or directory: '' @ sq @ path @ sq)))"





section \<open>Basic facts\<close>

subsection \<open>The clock and the cache\<close>

lemma now_ticks [simp]: "now (w\<lparr>ticks := k\<rparr>) = clock w k"
  by (simp add: now_def)

lemma now_files [simp]: "now (w\<lparr>files := f\<rparr>) = now w"
  by (simp add: now_def)

lemma cache_result_eq:
  "cache_result L self q p w =
     w\<lparr>ticks := Suc (ticks w),
       files := (files w)(get_cache_path L self q \<mapsto>
                  Doc (JObj [(''timestamp'', JFloat (now w)), (''query'', JStr q), (''results'', p)]))\<rparr>"
  by (simp add: cache_result_def time_time_def json_dump_def)

lemma get_cached_result_entry:
  assumes "files w (get_cache_path L self q) =
             Some (Doc (JObj [(''timestamp'', JFloat t), (''query'', JStr q'), (''results'', p)]))"
  shows "get_cached_result L self q w =
           (Inr (if now w - t < 86400 then p else JNull), w\<lparr>ticks := Suc (ticks w)\<rparr>)"
  using assms
  by (simp add: get_cached_result_def os_path_exists_def json_load_def time_time_def)

lemma get_cached_result_absent:
  assumes "files w (get_cache_path L self q) = None"
  shows "get_cached_result L self q w = (Inr JNull, w)"
  using assms by (simp add: get_cached_result_def os_path_exists_def)

lemma get_cached_result_fresh_dict:
  assumes "files w (get_cache_path L self q) = Some (Doc (JObj kvs))"
    and "map_of kvs ''timestamp'' = Some ts" and "float_minus (now w) ts = Inr age"
    and "age < 86400"
  shows "get_cached_result L self q w =
           (Inr (case map_of kvs ''results'' of Some v \<Rightarrow> v | None \<Rightarrow> JNull),
            w\<lparr>ticks := Suc (ticks w)\<rparr>)"
  using assms
  by (simp add: get_cached_result_def os_path_exists_def json_load_def time_time_def)

subsection \<open>Documents read back\<close>

lemma those_map_inverse:
  assumes "\<And>x. f (g x) = Some x"
  shows "those (map f (map g xs)) = Some xs"
  by (induction xs) (simp_all add: assms)

lemma those_map_comp_inverse:
  assumes "\<And>x. f (g x) = Some x"
  shows "those (map (f \<circ> g) xs) = Some xs"
  by (induction xs) (simp_all add: assms)

lemma fact_of_json_inverse: "fact_of_json (json_of_fact f) = Some f"
  by (simp add: fact_of_json_def json_of_fact_def)

lemma str_of_json_inverse: "str_of_json (JStr s) = Some s"
  by (simp add: str_of_json_def)

lemma entity_of_json_inverse: "entity_of_json (json_of_entity e) = Some e"
  by (simp add: entity_of_json_def json_of_entity_def
      those_map_comp_inverse [of str_of_json JStr] str_of_json_inverse)

lemma history_entry_of_json_inverse: "history_entry_of_json (json_of_history_entry h) = Some h"
  by (simp add: history_entry_of_json_def json_of_history_entry_def)

lemma task_of_json_inverse: "task_of_json (json_of_task t) = Some t"
  by (simp add: task_of_json_def json_of_task_def
      those_map_comp_inverse [of history_entry_of_json json_of_history_entry]
      history_entry_of_json_inverse)

lemma named_of_json_inverse:
  assumes "\<And>x. f (g x) = Some x"
  shows "named_of_json f (fst kv, g (snd kv)) = Some kv"
  by (simp add: named_of_json_def assms)

lemma memory_of_json_inverse: "memory_of_json (json_of_memory m) = Some m"
proof -
  have f: "those (map fact_of_json (map json_of_fact xs)) = Some xs" for xs
    by (rule those_map_inverse) (rule fact_of_json_inverse)
  have e: "those (map (named_of_json entity_of_json)
             (map (\<lambda>kv. (fst kv, json_of_entity (snd kv))) xs)) = Some xs" for xs
    by (rule those_map_inverse) (rule named_of_json_inverse, rule entity_of_json_inverse)
  have t: "those (map (named_of_json task_of_json)
             (map (\<lambda>kv. (fst kv, json_of_task (snd kv))) xs)) = Some xs" for xs
    by (rule those_map_inverse) (rule named_of_json_inverse, rule task_of_json_inverse)
  show ?thesis
    by (simp add: memory_of_json_def json_of_memory_def f e t del: map_map)
qed

lemma json_of_memory_inj: "json_of_memory a = json_of_memory b \<Longrightarrow> a = b"
  by (metis memory_of_json_inverse option.inject)

subsection \<open>Each tool as a change followed by a save\<close>

lemma save_memory_eq:
  "save_memory p m w =
     (m\<lparr>last_updated := now w\<rparr>,
      w\<lparr>ticks := Suc (ticks w),
        files := (files w)(p \<mapsto> Doc (json_of_memory (m\<lparr>last_updated := now w\<rparr>)))\<rparr>)"
  by (simp add: save_memory_def time_time_def json_dump_def Let_def)

lemma initialize_memory_eq:
  "initialize_memory path w =
     (empty_memory (clock w (Suc (ticks w))),
      w\<lparr>ticks := Suc (Suc (ticks w)),
        files := (files w)(path \<mapsto> Doc (json_of_memory (empty_memory (clock w (Suc (ticks w))))))\<rparr>)"
  by (simp add: initialize_memory_def time_time_def save_memory_eq empty_memory_def)

lemma load_memory_saved:
  assumes "files w path = Some (Doc j)"
  shows "load_memory E path w = (Inr j, w)"
  using assms by (simp add: load_memory_def os_path_exists_def json_load_def)

lemma initialize_memory_or_raise_written:
  assumes "E path = None"
  shows "initialize_memory_or_raise E path w =
          (Inr (json_of_memory (empty_memory (clock w (Suc (ticks w))))),
           w\<lparr>ticks := Suc (Suc (ticks w)),
             files := (files w)(path \<mapsto>
                        Doc (json_of_memory (empty_memory (clock w (Suc (ticks w))))))\<rparr>)"
  using assms by (simp add: initialize_memory_or_raise_def initialize_memory_eq)

lemma initialize_memory_or_raise_raised:
  assumes "E path = Some e"
  shows "initialize_memory_or_raise E path w = (Inl e, w\<lparr>ticks := Suc (Suc (ticks w))\<rparr>)"
  using assms by (simp add: initialize_memory_or_raise_def)

lemma load_memory_unreadable:
  assumes "files w path = None \<or> (\<exists>m. files w path = Some (Garbage m))"
  shows "load_memory E path w = initialize_memory_or_raise E path w"
  using assms by (auto simp add: load_memory_def os_path_exists_def json_load_def)

lemma store_fact_eq:
  "store_fact self f w =
     (''Fact stored in memory: '' @ sq @ f @ sq,
      self\<lparr>memory := (memory self)\<lparr>facts := facts (memory self) @ [\<lparr>content = f, timestamp = now w\<rparr>],
                                    last_updated := clock w (Suc (ticks w))\<rparr>\<rparr>,
      w\<lparr>ticks := Suc (Suc (ticks w)),
        files := (files w)(memory_file self \<mapsto>
          Doc (json_of_memory ((memory self)\<lparr>facts := facts (memory self) @ [\<lparr>content = f, timestamp = now w\<rparr>],
                                    last_updated := clock w (Suc (ticks w))\<rparr>)))\<rparr>)"
  by (simp add: store_fact_def time_time_def save_memory_eq Let_def)

lemma update_changes:
  assumes "map_of al k \<noteq> Some v"
  shows "AList.update k v al \<noteq> al"
proof
  assume "AList.update k v al = al"
  then have "map_of (AList.update k v al) k = map_of al k" by simp
  with assms show False by (simp add: update_conv')
qed

lemma store_entity_information_absent:
  assumes "map_of (entities (memory self)) n = None"
  shows "store_entity_information self n i w =
     (case save_memory (memory_file self)
        ((memory self)\<lparr>entities := AList.update n
            \<lparr>information = [i], first_mentioned = now w, e_last_updated = clock w (Suc (ticks w))\<rparr>
            (entities (memory self))\<rparr>)
        (w\<lparr>ticks := Suc (Suc (ticks w))\<rparr>) of
        (m2, w2) \<Rightarrow> (''Information about '' @ sq @ n @ sq @ '' stored in memory.'',
                      self\<lparr>memory := m2\<rparr>, w2))"
  using assms by (simp add: store_entity_information_def time_time_def Let_def)

lemma store_entity_information_present:
  assumes "map_of (entities (memory self)) n = Some e"
  shows "store_entity_information self n i w =
     (case save_memory (memory_file self)
        ((memory self)\<lparr>entities := AList.update n
            (e\<lparr>information := information e @ [i], e_last_updated := now w\<rparr>)
            (entities (memory self))\<rparr>)
        (w\<lparr>ticks := Suc (ticks w)\<rparr>) of
        (m2, w2) \<Rightarrow> (''Information about '' @ sq @ n @ sq @ '' stored in memory.'',
                      self\<lparr>memory := m2\<rparr>, w2))"
  using assms by (simp add: store_entity_information_def time_time_def Let_def)

lemma log_task_absent:
  assumes "map_of (tasks (memory self)) n = None"
  shows "log_task self n s d w =
     (case save_memory (memory_file self)
        ((memory self)\<lparr>tasks := AList.update n
            \<lparr>status = s, history = [\<lparr>h_status = s, h_details = d, h_timestamp = now w\<rparr>],
             created = clock w (Suc (ticks w)), t_last_updated = clock w (Suc (Suc (ticks w)))\<rparr>
            (tasks (memory self))\<rparr>)
        (w\<lparr>ticks := Suc (Suc (Suc (ticks w)))\<rparr>) of
        (m2, w2) \<Rightarrow> (''Task '' @ sq @ n @ sq @ '' logged with status: '' @ s,
                      self\<lparr>memory := m2\<rparr>, w2))"
  using assms by (simp add: log_task_def time_time_def Let_def)

lemma log_task_present:
  assumes "map_of (tasks (memory self)) n = Some t"
  shows "log_task self n s d w =
     (case save_memory (memory_file self)
        ((memory self)\<lparr>tasks := AList.update n
            (t\<lparr>status := s,
               history := history t @ [\<lparr>h_status = s, h_details = d, h_timestamp = now w\<rparr>],
               t_last_updated := clock w (Suc (ticks w))\<rparr>)
            (tasks (memory self))\<rparr>)
        (w\<lparr>ticks := Suc (Suc (ticks w))\<rparr>) of
        (m2, w2) \<Rightarrow> (''Task '' @ sq @ n @ sq @ '' logged with status: '' @ s,
                      self\<lparr>memory := m2\<rparr>, w2))"
  using assms by (simp add: log_task_def time_time_def Let_def)

lemma add_reflection_eq:
  "add_reflection self c w =
     (case save_memory (memory_file self)
        ((memory self)\<lparr>reflections := reflections (memory self) @ [\<lparr>content = c, timestamp = now w\<rparr>]\<rparr>)
        (w\<lparr>ticks := Suc (ticks w)\<rparr>) of
        (m2, w2) \<Rightarrow> (''Reflection added to memory.'', self\<lparr>memory := m2\<rparr>, w2))"
  by (simp add: add_reflection_def time_time_def Let_def)

lemma store_fact_save:
  "store_fact self f w =
     (case save_memory (memory_file self)
        ((memory self)\<lparr>facts := facts (memory self) @ [\<lparr>content = f, timestamp = now w\<rparr>]\<rparr>)
        (w\<lparr>ticks := Suc (ticks w)\<rparr>) of
        (m2, w2) \<Rightarrow> (''Fact stored in memory: '' @ sq @ f @ sq, self\<lparr>memory := m2\<rparr>, w2))"
  by (simp add: store_fact_def time_time_def Let_def)

text \<open>Every call is a change of one collection followed by a save.\<close>

lemma exec_call_shape:
  "\<exists>msg m1 k. ticks w < k
     \<and> exec_call c self w =
         (case save_memory (memory_file self) m1 (w\<lparr>ticks := k\<rparr>) of
            (m2, w2) \<Rightarrow> (msg, self\<lparr>memory := m2\<rparr>, w2))
     \<and> (facts m1, entities m1, tasks m1, reflections m1) \<noteq>
         (facts (memory self), entities (memory self), tasks (memory self),
          reflections (memory self))"
proof (cases c)
  case (StoreFact f)
  show ?thesis
    unfolding StoreFact exec_call.simps store_fact_save
    by (intro exI conjI) (rule lessI, rule refl, simp)
next
  case (AddReflection r)
  show ?thesis
    unfolding AddReflection exec_call.simps add_reflection_eq
    by (intro exI conjI) (rule lessI, rule refl, simp)
next
  case (StoreEntityInformation n i)
  show ?thesis
  proof (cases "map_of (entities (memory self)) n")
    case None
    show ?thesis
      unfolding StoreEntityInformation exec_call.simps store_entity_information_absent [OF None]
      by (intro exI conjI) (rule less_SucI, rule lessI, rule refl, simp add: update_changes None)
  next
    case (Some e)
    have "e\<lparr>information := information e @ [i], e_last_updated := now w\<rparr> \<noteq> e"
      by (metis append_self_conv entity.select_convs(1) entity.surjective entity.update_convs(1,3) not_Cons_self2)
    then show ?thesis
      unfolding StoreEntityInformation exec_call.simps store_entity_information_present [OF Some]
      by (intro exI conjI) (rule lessI, rule refl, simp add: update_changes Some)
  qed
next
  case (LogTask n s d)
  show ?thesis
  proof (cases "map_of (tasks (memory self)) n")
    case None
    show ?thesis
      unfolding LogTask exec_call.simps log_task_absent [OF None]
      by (intro exI conjI) (rule less_SucI, rule less_SucI, rule lessI, rule refl,
          simp add: update_changes None)
  next
    case (Some t)
    have "history (t\<lparr>status := s,
               history := history t @ [\<lparr>h_status = s, h_details = d, h_timestamp = now w\<rparr>],
               t_last_updated := clock w (Suc (ticks w))\<rparr>) \<noteq> history t"
      by simp
    then have "t\<lparr>status := s,
               history := history t @ [\<lparr>h_status = s, h_details = d, h_timestamp = now w\<rparr>],
               t_last_updated := clock w (Suc (ticks w))\<rparr> \<noteq> t"
      by metis
    then show ?thesis
      unfolding LogTask exec_call.simps log_task_present [OF Some]
      by (intro exI conjI) (rule less_SucI, rule lessI, rule refl, simp add: update_changes Some)
  qed
qed


lemma exec_call_confirmation: "fst (exec_call c self w) = confirmation c"
proof (cases c)
  case (StoreFact f)
  then show ?thesis by (simp add: store_fact_save save_memory_eq)
next
  case (StoreEntityInformation n i)
  then show ?thesis
    by (cases "map_of (entities (memory self)) n")
       (simp_all add: store_entity_information_absent store_entity_information_present
          save_memory_eq)
next
  case (LogTask n s d)
  then show ?thesis
    by (cases "map_of (tasks (memory self)) n")
       (simp_all add: log_task_absent log_task_present save_memory_eq)
next
  case (AddReflection r)
  then show ?thesis by (simp add: add_reflection_eq save_memory_eq)
qed

subsection \<open>Task histories\<close>

lemma history_length_log_task:
  "history_length (fst (snd (log_task self m s d w))) n =
     (if m = n then Suc (history_length self n) else history_length self n)"
proof (cases "map_of (tasks (memory self)) m")
  case None
  then show ?thesis
    by (auto simp add: log_task_absent save_memory_eq history_length_def update_conv')
next
  case (Some t)
  then show ?thesis
    by (auto simp add: log_task_present save_memory_eq history_length_def update_conv')
qed

lemma tasks_store_entity_information:
  "tasks (memory (fst (snd (store_entity_information self n i w)))) = tasks (memory self)"
  by (cases "map_of (entities (memory self)) n")
     (simp_all add: store_entity_information_absent store_entity_information_present save_memory_eq)

lemma history_length_exec_call:
  "history_length (fst (snd (exec_call c self w))) n =
     history_length self n + (if is_log_task_for n c then 1 else 0)"
proof (cases c)
  case (StoreFact f)
  then show ?thesis by (simp add: store_fact_save save_memory_eq history_length_def)
next
  case (StoreEntityInformation m i)
  then show ?thesis by (simp add: history_length_def tasks_store_entity_information)
next
  case (LogTask m s d)
  then show ?thesis by (simp add: history_length_log_task)
next
  case (AddReflection r)
  then show ?thesis by (simp add: add_reflection_eq save_memory_eq history_length_def)
qed

lemma history_length_exec_calls:
  "history_length (fst (exec_calls cs self w)) n =
     history_length self n + length (filter (is_log_task_for n) cs)"
proof (induction cs arbitrary: self w)
  case Nil
  show ?case by simp
next
  case (Cons c cs)
  obtain msg self1 w1 where step: "exec_call c self w = (msg, self1, w1)"
    by (cases "exec_call c self w") auto
  have "history_length self1 n = history_length self n + (if is_log_task_for n c then 1 else 0)"
    using history_length_exec_call [of c self w n] by (simp add: step)
  then show ?case
    by (simp add: step Cons.IH)
qed

subsection \<open>Substrings\<close>




subsection \<open>The simulated results\<close>

lemma show_nat_digit: "n < 10 \<Longrightarrow> show_nat n = [digit_char n]"
  by (simp add: show_nat.simps)

lemma show_nat_1: "show_nat (Suc 0) = ''1''"
  by (simp add: show_nat_digit digit_char_def)

lemma show_nat_2: "show_nat (Suc (Suc 0)) = ''2''"
  by (simp add: show_nat_digit digit_char_def)

lemma show_nat_3: "show_nat (Suc (Suc (Suc 0))) = ''3''"
  by (simp add: show_nat_digit digit_char_def)

lemma format_simulated_results:
  "format_results L (simulated_results q) q = Inr (simulated_text q)"
  by (simp add: format_results_def simulated_results_def format_item_def simulated_text_def
      show_nat_1 show_nat_2 show_nat_3)

lemma search_recomputes:
  assumes "get_cached_result L self q w = (Inr r, w1)" and "\<not> truthy r"
  shows "search L self q w = (simulated_text q, cache_result L self q (simulated_results q) w1)"
  using assms by (simp add: search_def format_simulated_results Let_def)

section \<open>The claims\<close>

text \<open>
  Claim C1. Let the cache hold for \<open>q\<close> what \<^verbatim>\<open>_cache_result\<close> wrote for the payload
  \<open>p\<close>, in a world \<open>w\<close> whose clock read \<open>now w\<close> at that moment. In any later world
  \<open>w2\<close> where that file is still as written, \<^verbatim>\<open>_get_cached_result\<close> returns \<open>p\<close> when
  its own reading of the clock is less than 86400 seconds after the stored one, and
  \<^verbatim>\<open>None\<close> otherwise, although the file still exists. Where there is no file for \<open>q\<close>
  it returns \<^verbatim>\<open>None\<close> as well.
\<close>

theorem cache_put_then_get:
  "(files w2 (get_cache_path L self q) = files (cache_result L self q p w) (get_cache_path L self q) \<longrightarrow>
      get_cached_result L self q w2 =
        (Inr (if now w2 - now w < 86400 then p else JNull), w2\<lparr>ticks := Suc (ticks w2)\<rparr>)
      \<and> os_path_exists (get_cache_path L self q) (snd (get_cached_result L self q w2)))
   \<and> (files w3 (get_cache_path L self q) = None \<longrightarrow>
        get_cached_result L self q w3 = (Inr JNull, w3))"
proof (intro conjI impI)
  assume same: "files w2 (get_cache_path L self q) =
                  files (cache_result L self q p w) (get_cache_path L self q)"
  then have entry: "files w2 (get_cache_path L self q) =
      Some (Doc (JObj [(''timestamp'', JFloat (now w)), (''query'', JStr q), (''results'', p)]))"
    by (simp add: cache_result_eq)
  from get_cached_result_entry [OF entry]
  show get: "get_cached_result L self q w2 =
        (Inr (if now w2 - now w < 86400 then p else JNull), w2\<lparr>ticks := Suc (ticks w2)\<rparr>)" .
  show "os_path_exists (get_cache_path L self q) (snd (get_cached_result L self q w2))"
    by (simp add: get os_path_exists_def entry)
next
  assume "files w3 (get_cache_path L self q) = None"
  then show "get_cached_result L self q w3 = (Inr JNull, w3)"
    by (rule get_cached_result_absent)
qed

theorem cache_put_then_get_witness:
  "fst (get_cached_result sample_lib sample_search ''q''
          (cache_result sample_lib sample_search ''q'' (JStr ''p'') sample_world))
     = Inr (JStr ''p'')
   \<and> fst (get_cached_result sample_lib sample_search ''q''
          ((cache_result sample_lib sample_search ''q'' (JStr ''p'') sample_world)\<lparr>ticks := 2\<rparr>))
     = Inr JNull
   \<and> os_path_exists (get_cache_path sample_lib sample_search ''q'')
        (snd (get_cached_result sample_lib sample_search ''q''
          ((cache_result sample_lib sample_search ''q'' (JStr ''p'') sample_world)\<lparr>ticks := 2\<rparr>)))
   \<and> fst (get_cached_result sample_lib sample_search ''q'' sample_world) = Inr JNull"
proof -
  let ?w1 = "cache_result sample_lib sample_search ''q'' (JStr ''p'') sample_world"
  have absent: "files sample_world (get_cache_path sample_lib sample_search ''q'') = None"
    by (simp add: sample_world_def)
  have same: "files (?w1\<lparr>ticks := 2\<rparr>) (get_cache_path sample_lib sample_search ''q'') =
              files ?w1 (get_cache_path sample_lib sample_search ''q'')"
    by simp
  have t0: "now sample_world = 1000" and t1: "now ?w1 = 51000"
    and t2: "clock ?w1 2 = 101000"
    by (simp_all add: now_def sample_world_def cache_result_eq)
  from cache_put_then_get [of ?w1 sample_lib sample_search "''q''" "JStr ''p''" sample_world
      sample_world] absent
  have fresh: "get_cached_result sample_lib sample_search ''q'' ?w1 =
                 (Inr (JStr ''p''), ?w1\<lparr>ticks := Suc (ticks ?w1)\<rparr>)"
    and none: "get_cached_result sample_lib sample_search ''q'' sample_world = (Inr JNull, sample_world)"
    by (simp_all add: t0 t1)
  from cache_put_then_get [of "?w1\<lparr>ticks := 2\<rparr>" sample_lib sample_search "''q''" "JStr ''p''"
      sample_world sample_world] same
  have later: "get_cached_result sample_lib sample_search ''q'' (?w1\<lparr>ticks := 2\<rparr>) =
      (Inr (if now (?w1\<lparr>ticks := 2\<rparr>) - now sample_world < 86400 then JStr ''p'' else JNull),
       ?w1\<lparr>ticks := 2, ticks := Suc (ticks (?w1\<lparr>ticks := 2\<rparr>))\<rparr>)"
    and exists: "os_path_exists (get_cache_path sample_lib sample_search ''q'')
        (snd (get_cached_result sample_lib sample_search ''q'' (?w1\<lparr>ticks := 2\<rparr>)))"
    by blast+
  have expired: "fst (get_cached_result sample_lib sample_search ''q'' (?w1\<lparr>ticks := 2\<rparr>)) = Inr JNull"
    by (simp add: later t0 t2)
  show ?thesis
    by (simp add: fresh none expired exists)
qed

text \<open>
  Claim C2, as amended. After \<^verbatim>\<open>store_fact(f)\<close>, \<^verbatim>\<open>retrieve_facts\<close> without a query
  lists the facts in insertion order, those stored before first and \<open>f\<close> last. \<open>f\<close> is
  listed once more than it was stored before; it is listed exactly once precisely when
  it had not been stored already.
\<close>

theorem store_fact_then_retrieve_all:
  "(let (msg, self1, w1) = store_fact self f w;
        before = map content (facts (memory self));
        after = map content (facts (memory self1))
    in after = before @ [f]
       \<and> retrieve_facts L self1 None = ''All stored facts:'' @ nl @ nl @ numbered 1 (before @ [f])
       \<and> count_list after f = Suc (count_list before f)
       \<and> (count_list after f = 1 \<longleftrightarrow> f \<notin> set before))"
  by (simp add: store_fact_eq retrieve_facts_def count_list_0_iff)

theorem store_fact_then_retrieve_all_witness:
  "retrieve_facts sample_lib (fst (snd (store_fact sample_tool ''a'' sample_world))) None =
     ''All stored facts:'' @ nl @ nl @ ''1. a'' @ nl
   \<and> count_list (map content (facts (memory (fst (snd (store_fact sample_tool ''a'' sample_world))))))
        ''a'' = 1"
  using store_fact_then_retrieve_all [of sample_tool "''a''" sample_world sample_lib]
  by (simp add: store_fact_eq sample_tool_def empty_memory_def show_nat.simps digit_char_def)

text \<open>
  Claim C2 as it was stated, on a store that already holds the fact: the listing shows
  it twice.
\<close>

theorem store_fact_twice_counterexample:
  "retrieve_facts sample_lib (fst (snd (store_fact tool_with_fact ''a'' sample_world))) None =
     ''All stored facts:'' @ nl @ nl @ ''1. a'' @ nl @ ''2. a'' @ nl
   \<and> count_list (map content (facts (memory (fst (snd (store_fact tool_with_fact ''a'' sample_world))))))
        ''a'' = 2"
  by (simp add: store_fact_eq retrieve_facts_def tool_with_fact_def empty_memory_def
      show_nat.simps digit_char_def)

text \<open>
  Claim C3. Each of \<^verbatim>\<open>store_fact\<close>, \<^verbatim>\<open>store_entity_information\<close>, \<^verbatim>\<open>log_task\<close> and
  \<^verbatim>\<open>add_reflection\<close> returns its confirmation with the store stamped by a reading of
  the clock taken during the call (the last one), and with the memory file holding the
  document of the whole memory as it is after the call. That document is not the one of
  the memory before the call, whatever stamp it is given.
\<close>

theorem every_mutation_is_flushed:
  "(let (msg, self1, w1) = exec_call c self w in
      msg = confirmation c
    \<and> memory_file self1 = memory_file self
    \<and> clock w1 = clock w \<and> ticks w < ticks w1
    \<and> last_updated (memory self1) = clock w (ticks w1 - 1)
    \<and> files w1 (memory_file self) = Some (Doc (json_of_memory (memory self1)))
    \<and> (\<forall>t. json_of_memory (memory self1) \<noteq> json_of_memory ((memory self)\<lparr>last_updated := t\<rparr>)))"
proof -
  obtain msg m1 k where k: "ticks w < k"
    and eq: "exec_call c self w =
         (case save_memory (memory_file self) m1 (w\<lparr>ticks := k\<rparr>) of
            (m2, w2) \<Rightarrow> (msg, self\<lparr>memory := m2\<rparr>, w2))"
    and changed: "(facts m1, entities m1, tasks m1, reflections m1) \<noteq>
         (facts (memory self), entities (memory self), tasks (memory self),
          reflections (memory self))"
    using exec_call_shape [of w c self] by blast
  have differs: "json_of_memory (m1\<lparr>last_updated := a\<rparr>) \<noteq>
                 json_of_memory ((memory self)\<lparr>last_updated := t\<rparr>)" for a t
  proof
    assume "json_of_memory (m1\<lparr>last_updated := a\<rparr>) =
            json_of_memory ((memory self)\<lparr>last_updated := t\<rparr>)"
    then have "m1\<lparr>last_updated := a\<rparr> = (memory self)\<lparr>last_updated := t\<rparr>"
      by (rule json_of_memory_inj)
    then have "facts (m1\<lparr>last_updated := a\<rparr>) = facts ((memory self)\<lparr>last_updated := t\<rparr>)"
      and "entities (m1\<lparr>last_updated := a\<rparr>) = entities ((memory self)\<lparr>last_updated := t\<rparr>)"
      and "tasks (m1\<lparr>last_updated := a\<rparr>) = tasks ((memory self)\<lparr>last_updated := t\<rparr>)"
      and "reflections (m1\<lparr>last_updated := a\<rparr>) = reflections ((memory self)\<lparr>last_updated := t\<rparr>)"
      by simp_all
    with changed show False by simp
  qed
  have msg: "msg = confirmation c"
    using exec_call_confirmation [of c self w] by (simp add: eq save_memory_eq)
  show ?thesis
    using k by (simp add: eq save_memory_eq differs msg)
qed

theorem every_mutation_is_flushed_witness:
  "fst (store_fact sample_tool ''a'' sample_world) = ''Fact stored in memory: '' @ sq @ ''a'' @ sq
   \<and> last_updated (memory (fst (snd (store_fact sample_tool ''a'' sample_world)))) = 51000
   \<and> files (snd (snd (store_fact sample_tool ''a'' sample_world))) ''agent_memory.json'' =
       Some (Doc (JObj [(''facts'', JArr [JObj [(''content'', JStr ''a''), (''timestamp'', JFloat 1000)]]),
                        (''entities'', JObj []), (''conversations'', JArr []), (''tasks'', JObj []),
                        (''reflections'', JArr []), (''last_updated'', JFloat 51000)]))"
proof -
  let ?r = "store_fact sample_tool ''a'' sample_world"
  have mem: "memory (fst (snd ?r)) =
      \<lparr>facts = [\<lparr>content = ''a'', timestamp = 1000\<rparr>], entities = [], conversations = [],
       tasks = [], reflections = [], last_updated = 51000\<rparr>"
    by (simp add: store_fact_eq sample_tool_def sample_world_def empty_memory_def now_def)
  have path: "memory_file sample_tool = ''agent_memory.json''"
    by (simp add: sample_tool_def)
  from every_mutation_is_flushed [of "StoreFact ''a''" sample_tool sample_world]
  have "fst ?r = confirmation (StoreFact ''a'')"
    and "files (snd (snd ?r)) (memory_file sample_tool) =
           Some (Doc (json_of_memory (memory (fst (snd ?r)))))"
    by (simp_all add: case_prod_beta Let_def)
  then show ?thesis
    unfolding mem path by (simp add: json_of_memory_def json_of_fact_def)
qed

text \<open>
  Claim C4. \<^verbatim>\<open>store_entity_information(n, info)\<close> on a name that is not in the store
  creates a record whose information list is \<open>[info]\<close>; on a known name it appends
  \<open>info\<close> to the list of that record and sets its last-updated stamp to the clock;
  names stay unique. So after storing \<open>i1\<close> and then \<open>i2\<close> for one name,
  \<^verbatim>\<open>retrieve_entity\<close> lists what was there before followed by \<open>i1\<close> and \<open>i2\<close>, and
  the name has one record.
\<close>

theorem store_entity_information_upsert:
  "(let (msg, self1, w1) = store_entity_information self n i w in
      (map_of (entities (memory self)) n = None \<longrightarrow>
         map_of (entities (memory self1)) n =
           Some \<lparr>information = [i], first_mentioned = now w,
                 e_last_updated = clock w (Suc (ticks w))\<rparr>)
    \<and> (\<forall>e. map_of (entities (memory self)) n = Some e \<longrightarrow>
         map_of (entities (memory self1)) n =
           Some (e\<lparr>information := information e @ [i], e_last_updated := now w\<rparr>))
    \<and> (distinct (map fst (entities (memory self))) \<longrightarrow>
         distinct (map fst (entities (memory self1)))))
   \<and> (let (msg1, self1, w1) = store_entity_information self n i1 w;
           (msg2, self2, w2) = store_entity_information self1 n i2 w1
       in retrieve_entity self2 n =
            ''Information about '' @ sq @ n @ sq @ '':'' @ nl @ nl @
            numbered 1 (entity_information self n @ [i1, i2])
          \<and> (distinct (map fst (entities (memory self))) \<longrightarrow>
               length (filter (\<lambda>kv. fst kv = n) (entities (memory self2))) = 1))"
proof -
  have one: "length (filter (\<lambda>kv. fst kv = n) al) = 1"
    if "distinct (map fst al)" "map_of al n = Some v" for al :: "(string \<times> entity) list" and v
    using that
  proof (induction al)
    case Nil
    then show ?case by simp
  next
    case (Cons a al)
    show ?case
    proof (cases "fst a = n")
      case True
      with Cons.prems have "n \<notin> fst ` set al" by auto
      then have "filter (\<lambda>kv. fst kv = n) al = []"
        by (auto simp: filter_empty_conv)
      with True show ?thesis by simp
    next
      case False
      with Cons show ?thesis by (cases a) auto
    qed
  qed
  show ?thesis
  proof (cases "map_of (entities (memory self)) n")
    case None
    let ?e1 = "\<lparr>information = [i1], first_mentioned = now w,
                 e_last_updated = clock w (Suc (ticks w))\<rparr>"
    let ?es1 = "AList.update n ?e1 (entities (memory self))"
    have p: "map_of ?es1 n = Some ?e1"
      by (simp add: update_conv')
    show ?thesis
      by (simp add: store_entity_information_absent [OF None] save_memory_eq update_conv'
          store_entity_information_present [where e = ?e1] retrieve_entity_def
          entity_information_def None distinct_update one [where v = "?e1\<lparr>information := [i1, i2], e_last_updated := clock w (Suc (Suc (Suc (ticks w))))\<rparr>"])
  next
    case (Some e)
    show ?thesis
      by (simp add: store_entity_information_present [OF Some] save_memory_eq update_conv'
          store_entity_information_present [where e = "e\<lparr>information := information e @ [i1], e_last_updated := now w\<rparr>"]
          retrieve_entity_def entity_information_def Some distinct_update
          one [where v = "e\<lparr>information := information e @ [i1, i2], e_last_updated := clock w (Suc (Suc (ticks w)))\<rparr>"])
  qed
qed

theorem store_entity_information_upsert_witness:
  "retrieve_entity
     (fst (snd (store_entity_information
        (fst (snd (store_entity_information sample_tool ''Acme'' ''info1'' sample_world)))
        ''Acme'' ''info2''
        (snd (snd (store_entity_information sample_tool ''Acme'' ''info1'' sample_world))))))
     ''Acme''
   = ''Information about '' @ sq @ ''Acme'' @ sq @ '':'' @ nl @ nl @
     ''1. info1'' @ nl @ ''2. info2'' @ nl
   \<and> map_of (entities (memory (fst (snd
         (store_entity_information sample_tool ''Acme'' ''info1'' sample_world))))) ''Acme''
     = Some \<lparr>information = [''info1''], first_mentioned = 1000, e_last_updated = 51000\<rparr>"
proof -
  let ?r1 = "store_entity_information sample_tool ''Acme'' ''info1'' sample_world"
  let ?r2 = "store_entity_information (fst (snd ?r1)) ''Acme'' ''info2'' (snd (snd ?r1))"
  have absent: "map_of (entities (memory sample_tool)) ''Acme'' = None"
    by (simp add: sample_tool_def empty_memory_def)
  have no_info: "entity_information sample_tool ''Acme'' = []"
    by (simp add: entity_information_def absent)
  have clk: "now sample_world = 1000" "clock sample_world (Suc (ticks sample_world)) = 51000"
    by (simp_all add: now_def sample_world_def)
  have listing: "numbered 1 [''info1'', ''info2''] = ''1. info1'' @ nl @ ''2. info2'' @ nl"
    by (simp add: show_nat.simps digit_char_def)
  note h = store_entity_information_upsert [of sample_tool "''Acme''" "''info1''" sample_world
      "''info1''" "''info2''", unfolded case_prod_beta Let_def]
  from h absent
  have first: "map_of (entities (memory (fst (snd ?r1)))) ''Acme'' =
          Some \<lparr>information = [''info1''], first_mentioned = now sample_world,
                e_last_updated = clock sample_world (Suc (ticks sample_world))\<rparr>"
    by blast
  from h
  have both: "retrieve_entity (fst (snd ?r2)) ''Acme'' =
          ''Information about '' @ sq @ ''Acme'' @ sq @ '':'' @ nl @ nl @
          numbered 1 (entity_information sample_tool ''Acme'' @ [''info1'', ''info2''])"
    by blast
  show ?thesis
    unfolding both first no_info clk append_Nil listing by simp
qed

text \<open>
  Claim C5. \<^verbatim>\<open>log_task(n, s, d)\<close> on an unknown name creates an entry with status \<open>s\<close>
  and a history of one record; on a known name it overwrites the status with \<open>s\<close> and
  appends one record of status, details and clock reading to the history. Either way the
  history grows by one, so after any run of calls on a store that did not know \<open>n\<close>,
  the history of \<open>n\<close> is as long as the number of \<^verbatim>\<open>log_task\<close> calls made for \<open>n\<close>.
\<close>

theorem log_task_upsert:
  "(let (msg, self1, w1) = log_task self n s d w in
      (map_of (tasks (memory self)) n = None \<longrightarrow>
         map_of (tasks (memory self1)) n =
           Some \<lparr>status = s,
                 history = [\<lparr>h_status = s, h_details = d, h_timestamp = now w\<rparr>],
                 created = clock w (Suc (ticks w)),
                 t_last_updated = clock w (Suc (Suc (ticks w)))\<rparr>)
    \<and> (\<forall>t. map_of (tasks (memory self)) n = Some t \<longrightarrow>
         map_of (tasks (memory self1)) n =
           Some (t\<lparr>status := s,
                   history := history t @ [\<lparr>h_status = s, h_details = d, h_timestamp = now w\<rparr>],
                   t_last_updated := clock w (Suc (ticks w))\<rparr>))
    \<and> history_length self1 n = Suc (history_length self n))
   \<and> (map_of (tasks (memory self)) n = None \<longrightarrow>
        history_length (fst (exec_calls cs self w)) n = length (filter (is_log_task_for n) cs))"
proof (intro conjI)
  show "(let (msg, self1, w1) = log_task self n s d w in
      (map_of (tasks (memory self)) n = None \<longrightarrow>
         map_of (tasks (memory self1)) n =
           Some \<lparr>status = s,
                 history = [\<lparr>h_status = s, h_details = d, h_timestamp = now w\<rparr>],
                 created = clock w (Suc (ticks w)),
                 t_last_updated = clock w (Suc (Suc (ticks w)))\<rparr>)
    \<and> (\<forall>t. map_of (tasks (memory self)) n = Some t \<longrightarrow>
         map_of (tasks (memory self1)) n =
           Some (t\<lparr>status := s,
                   history := history t @ [\<lparr>h_status = s, h_details = d, h_timestamp = now w\<rparr>],
                   t_last_updated := clock w (Suc (ticks w))\<rparr>))
    \<and> history_length self1 n = Suc (history_length self n))"
  proof (cases "map_of (tasks (memory self)) n")
    case None
    then show ?thesis
      by (simp add: log_task_absent save_memory_eq update_conv' history_length_def)
  next
    case (Some t)
    then show ?thesis
      by (simp add: log_task_present save_memory_eq update_conv' history_length_def)
  qed
next
  show "map_of (tasks (memory self)) n = None \<longrightarrow>
        history_length (fst (exec_calls cs self w)) n = length (filter (is_log_task_for n) cs)"
    by (simp add: history_length_exec_calls) (simp add: history_length_def)
qed

theorem log_task_upsert_witness:
  "history_length
     (fst (exec_calls [LogTask ''t'' ''started'' ''d1'', StoreFact ''x'', LogTask ''u'' ''started'' ''d'',
                       LogTask ''t'' ''done'' ''d2''] sample_tool sample_world)) ''t'' = 2
   \<and> history_length (fst (snd (log_task sample_tool ''t'' ''started'' ''d1'' sample_world))) ''t'' = 1"
proof -
  let ?cs = "[LogTask ''t'' ''started'' ''d1'', StoreFact ''x'', LogTask ''u'' ''started'' ''d'',
              LogTask ''t'' ''done'' ''d2'']"
  have absent: "map_of (tasks (memory sample_tool)) ''t'' = None"
    by (simp add: sample_tool_def empty_memory_def)
  have zero: "history_length sample_tool ''t'' = 0"
    by (simp add: history_length_def absent)
  have two: "length (filter (is_log_task_for ''t'') ?cs) = 2"
    by simp
  note h = log_task_upsert [of sample_tool "''t''" "''started''" "''d1''" sample_world ?cs,
      unfolded case_prod_beta Let_def]
  from h
  have one: "history_length (fst (snd (log_task sample_tool ''t'' ''started'' ''d1'' sample_world))) ''t''
          = Suc (history_length sample_tool ''t'')"
    by blast
  from h absent
  have run: "history_length (fst (exec_calls ?cs sample_tool sample_world)) ''t'' =
      length (filter (is_log_task_for ''t'') ?cs)"
    by blast
  show ?thesis
    unfolding one run two zero by simp
qed

text \<open>
  Claim C6, as amended. \<^verbatim>\<open>_load_memory\<close>, and with it the construction of a
  \<^verbatim>\<open>MemoryTool\<close>, raises no error of the read: when the memory file is missing, or is
  there but \<^verbatim>\<open>json.load\<close> rejects it, the store is reinitialised to the empty structure,
  which is written to the file. The error of that write, when it fails, is raised to the
  caller. Where the write succeeds the load returns a value whatever the memory file is.
  A file that holds a JSON document is returned as it is, whatever the document, and
  nothing is written.
\<close>

theorem load_memory_reinitialises_or_raises:
  "(E path = None \<longrightarrow>
      (\<exists>j w1. load_memory E path w = (Inr j, w1) \<and> init_MemoryTool E path w = (Inr (path, j), w1)))
   \<and> ((files w path = None \<or> (\<exists>m. files w path = Some (Garbage m))) \<longrightarrow>
        (E path = None \<longrightarrow>
           load_memory E path w =
             (Inr (json_of_memory (empty_memory (clock w (Suc (ticks w))))),
              w\<lparr>ticks := Suc (Suc (ticks w)),
                files := (files w)(path \<mapsto>
                           Doc (json_of_memory (empty_memory (clock w (Suc (ticks w))))))\<rparr>))
      \<and> (\<forall>e. E path = Some e \<longrightarrow>
             load_memory E path w = (Inl e, w\<lparr>ticks := Suc (Suc (ticks w))\<rparr>)
           \<and> init_MemoryTool E path w = (Inl e, w\<lparr>ticks := Suc (Suc (ticks w))\<rparr>)))
   \<and> (\<forall>j. files w path = Some (Doc j) \<longrightarrow>
        load_memory E path w = (Inr j, w) \<and> init_MemoryTool E path w = (Inr (path, j), w))"
proof (intro conjI impI allI)
  assume ok: "E path = None"
  show "\<exists>j w1. load_memory E path w = (Inr j, w1) \<and> init_MemoryTool E path w = (Inr (path, j), w1)"
  proof (cases "files w path")
    case None
    then have "load_memory E path w = initialize_memory_or_raise E path w"
      by (simp add: load_memory_unreadable)
    then show ?thesis
      by (simp add: init_MemoryTool_def initialize_memory_or_raise_written [of E path, OF ok])
  next
    case (Some f)
    show ?thesis
    proof (cases f)
      case (Doc j)
      with Some show ?thesis
        by (simp add: init_MemoryTool_def load_memory_saved)
    next
      case (Garbage m)
      with Some have "load_memory E path w = initialize_memory_or_raise E path w"
        by (simp add: load_memory_unreadable)
      then show ?thesis
        by (simp add: init_MemoryTool_def initialize_memory_or_raise_written [of E path, OF ok])
    qed
  qed
next
  assume "files w path = None \<or> (\<exists>m. files w path = Some (Garbage m))" and "E path = None"
  then show "load_memory E path w =
             (Inr (json_of_memory (empty_memory (clock w (Suc (ticks w))))),
              w\<lparr>ticks := Suc (Suc (ticks w)),
                files := (files w)(path \<mapsto>
                           Doc (json_of_memory (empty_memory (clock w (Suc (ticks w))))))\<rparr>)"
    by (simp add: load_memory_unreadable initialize_memory_or_raise_written)
next
  fix e
  assume unreadable: "files w path = None \<or> (\<exists>m. files w path = Some (Garbage m))"
    and fails: "E path = Some e"
  then show raised: "load_memory E path w = (Inl e, w\<lparr>ticks := Suc (Suc (ticks w))\<rparr>)"
    by (simp add: load_memory_unreadable initialize_memory_or_raise_raised)
  show "init_MemoryTool E path w = (Inl e, w\<lparr>ticks := Suc (Suc (ticks w))\<rparr>)"
    by (simp add: init_MemoryTool_def raised)
next
  fix j
  assume "files w path = Some (Doc j)"
  then show "load_memory E path w = (Inr j, w)"
    by (rule load_memory_saved)
next
  fix j
  assume "files w path = Some (Doc j)"
  then show "init_MemoryTool E path w = (Inr (path, j), w)"
    by (simp add: init_MemoryTool_def load_memory_saved)
qed

theorem load_memory_reinitialises_or_raises_witness:
  "load_memory no_write_errors ''agent_memory.json'' sample_world =
     (Inr (JObj [(''facts'', JArr []), (''entities'', JObj []), (''conversations'', JArr []),
                 (''tasks'', JObj []), (''reflections'', JArr []), (''last_updated'', JFloat 51000)]),
      sample_world\<lparr>ticks := 2, files := [''agent_memory.json'' \<mapsto>
        Doc (JObj [(''facts'', JArr []), (''entities'', JObj []), (''conversations'', JArr []),
                 (''tasks'', JObj []), (''reflections'', JArr []), (''last_updated'', JFloat 51000)])]\<rparr>)
   \<and> fst (load_memory no_write_errors ''agent_memory.json'' world_with_garbage) =
       Inr (JObj [(''facts'', JArr []), (''entities'', JObj []), (''conversations'', JArr []),
                 (''tasks'', JObj []), (''reflections'', JArr []), (''last_updated'', JFloat 51000)])
   \<and> fst (load_memory missing_directory ''agent_memory.json'' world_with_garbage) =
       Inl (FileNotFoundError (''[Errno 2] No such file or directory: '' @ sq @ ''agent_memory.json'' @ sq))
   \<and> load_memory missing_directory ''agent_memory.json'' world_with_other_document =
       (Inr (JObj [(''x'', JInt 1)]), world_with_other_document)"
proof -
  have missing: "files sample_world ''agent_memory.json'' = None"
    by (simp add: sample_world_def)
  have garbage: "files world_with_garbage ''agent_memory.json'' = Some (Garbage ''Expecting value'')"
    by (simp add: world_with_garbage_def)
  have other: "files world_with_other_document ''agent_memory.json'' = Some (Doc (JObj [(''x'', JInt 1)]))"
    by (simp add: world_with_other_document_def)
  have ok: "no_write_errors ''agent_memory.json'' = None"
    by (simp add: no_write_errors_def)
  have fails: "missing_directory ''agent_memory.json'' =
      Some (FileNotFoundError (''[Errno 2] No such file or directory: '' @ sq @ ''agent_memory.json'' @ sq))"
    by (simp add: missing_directory_def)
  have doc: "json_of_memory (empty_memory 51000) =
      JObj [(''facts'', JArr []), (''entities'', JObj []), (''conversations'', JArr []),
            (''tasks'', JObj []), (''reflections'', JArr []), (''last_updated'', JFloat 51000)]"
    by (simp add: json_of_memory_def empty_memory_def)
  have clk: "clock sample_world (Suc (ticks sample_world)) = 51000"
    "clock world_with_garbage (Suc (ticks world_with_garbage)) = 51000"
    by (simp_all add: sample_world_def world_with_garbage_def)
  from load_memory_reinitialises_or_raises [of no_write_errors "''agent_memory.json''" sample_world]
    missing ok
  have a: "load_memory no_write_errors ''agent_memory.json'' sample_world =
          (Inr (json_of_memory (empty_memory (clock sample_world (Suc (ticks sample_world))))),
           sample_world\<lparr>ticks := Suc (Suc (ticks sample_world)),
             files := (files sample_world)(''agent_memory.json'' \<mapsto>
                        Doc (json_of_memory (empty_memory (clock sample_world (Suc (ticks sample_world))))))\<rparr>)"
    by blast
  from load_memory_reinitialises_or_raises [of no_write_errors "''agent_memory.json''" world_with_garbage]
    garbage ok
  have b: "load_memory no_write_errors ''agent_memory.json'' world_with_garbage =
          (Inr (json_of_memory (empty_memory (clock world_with_garbage (Suc (ticks world_with_garbage))))),
           world_with_garbage\<lparr>ticks := Suc (Suc (ticks world_with_garbage)),
             files := (files world_with_garbage)(''agent_memory.json'' \<mapsto>
                        Doc (json_of_memory (empty_memory (clock world_with_garbage (Suc (ticks world_with_garbage))))))\<rparr>)"
    by blast
  from load_memory_reinitialises_or_raises [of missing_directory "''agent_memory.json''" world_with_garbage]
    garbage fails
  have c: "load_memory missing_directory ''agent_memory.json'' world_with_garbage =
          (Inl (FileNotFoundError (''[Errno 2] No such file or directory: '' @ sq @ ''agent_memory.json'' @ sq)),
           world_with_garbage\<lparr>ticks := Suc (Suc (ticks world_with_garbage))\<rparr>)"
    by blast
  from load_memory_reinitialises_or_raises [of missing_directory "''agent_memory.json''"
      world_with_other_document] other
  have d: "load_memory missing_directory ''agent_memory.json'' world_with_other_document =
       (Inr (JObj [(''x'', JInt 1)]), world_with_other_document)"
    by blast
  show ?thesis
    unfolding a b c d clk doc by (simp add: sample_world_def)
qed

text \<open>
  Claim C6 as it was stated, for a memory file in a directory that does not exist: the
  file is missing, the write of the new memory raises, and the load and the construction
  raise that error to the caller. And a memory file that holds a document which is no
  memory is neither rejected nor reinitialised: the document is what the load returns.
\<close>

theorem load_memory_raises_counterexample:
  "fst (load_memory missing_directory ''missing_dir/agent_memory.json'' sample_world) =
     Inl (FileNotFoundError (''[Errno 2] No such file or directory: '' @ sq @
                             ''missing_dir/agent_memory.json'' @ sq))
   \<and> fst (init_MemoryTool missing_directory ''missing_dir/agent_memory.json'' sample_world) =
     Inl (FileNotFoundError (''[Errno 2] No such file or directory: '' @ sq @
                             ''missing_dir/agent_memory.json'' @ sq))
   \<and> load_memory no_write_errors ''agent_memory.json'' world_with_other_document =
     (Inr (JObj [(''x'', JInt 1)]), world_with_other_document)
   \<and> memory_of_json (JObj [(''x'', JInt 1)]) = None"
  by (simp add: load_memory_def init_MemoryTool_def initialize_memory_or_raise_def
      os_path_exists_def json_load_def missing_directory_def sample_world_def
      world_with_other_document_def memory_of_json_def)






text \<open>
  Claim C9. \<^verbatim>\<open>store_entity_information\<close> on a name that is in the store changes the
  information list and the last-updated stamp of that entity and the stamp of the store,
  and nothing else of the memory: the first-mentioned stamp of the entity, the other
  entities and the order of the names, the facts, the tasks, the reflections and the
  conversations are as before. No file but the memory file is written.
\<close>

theorem store_entity_information_frame:
  "map_of (entities (memory self)) n = Some e \<longrightarrow>
   (let (msg, self1, w1) = store_entity_information self n i w;
        e1 = e\<lparr>information := information e @ [i], e_last_updated := now w\<rparr>
    in map_of (entities (memory self1)) n = Some e1
     \<and> first_mentioned e1 = first_mentioned e
     \<and> facts (memory self1) = facts (memory self)
     \<and> tasks (memory self1) = tasks (memory self)
     \<and> reflections (memory self1) = reflections (memory self)
     \<and> conversations (memory self1) = conversations (memory self)
     \<and> (\<forall>k. k \<noteq> n \<longrightarrow> map_of (entities (memory self1)) k = map_of (entities (memory self)) k)
     \<and> map fst (entities (memory self1)) = map fst (entities (memory self))
     \<and> memory self1 = (memory self)\<lparr>entities := AList.update n e1 (entities (memory self)),
                                     last_updated := clock w (Suc (ticks w))\<rparr>
     \<and> memory_file self1 = memory_file self
     \<and> (\<forall>p. p \<noteq> memory_file self \<longrightarrow> files w1 p = files w p))"
proof
  assume present: "map_of (entities (memory self)) n = Some e"
  then have "n \<in> fst ` set (entities (memory self))"
    by (metis domI dom_map_of_conv_image_fst)
  then have keys: "map fst (AList.update n v (entities (memory self))) = map fst (entities (memory self))" for v
    by (simp add: update_keys)
  show "(let (msg, self1, w1) = store_entity_information self n i w;
        e1 = e\<lparr>information := information e @ [i], e_last_updated := now w\<rparr>
    in map_of (entities (memory self1)) n = Some e1
     \<and> first_mentioned e1 = first_mentioned e
     \<and> facts (memory self1) = facts (memory self)
     \<and> tasks (memory self1) = tasks (memory self)
     \<and> reflections (memory self1) = reflections (memory self)
     \<and> conversations (memory self1) = conversations (memory self)
     \<and> (\<forall>k. k \<noteq> n \<longrightarrow> map_of (entities (memory self1)) k = map_of (entities (memory self)) k)
     \<and> map fst (entities (memory self1)) = map fst (entities (memory self))
     \<and> memory self1 = (memory self)\<lparr>entities := AList.update n e1 (entities (memory self)),
                                     last_updated := clock w (Suc (ticks w))\<rparr>
     \<and> memory_file self1 = memory_file self
     \<and> (\<forall>p. p \<noteq> memory_file self \<longrightarrow> files w1 p = files w p))"
    by (simp add: store_entity_information_present [OF present] save_memory_eq update_conv' keys Let_def)
qed

theorem store_entity_information_frame_witness:
  "map_of (entities (memory (fst (snd
      (store_entity_information tool_with_entity ''Acme'' ''info2'' sample_world))))) ''Acme'' =
     Some \<lparr>information = [''info1'', ''info2''], first_mentioned = 5, e_last_updated = 1000\<rparr>
   \<and> facts (memory (fst (snd
      (store_entity_information tool_with_entity ''Acme'' ''info2'' sample_world)))) = []
   \<and> last_updated (memory (fst (snd
      (store_entity_information tool_with_entity ''Acme'' ''info2'' sample_world)))) = 51000"
proof -
  let ?r = "store_entity_information tool_with_entity ''Acme'' ''info2'' sample_world"
  let ?e = "\<lparr>information = [''info1''], first_mentioned = 5, e_last_updated = 6\<rparr>"
  have present: "map_of (entities (memory tool_with_entity)) ''Acme'' = Some ?e"
    by (simp add: tool_with_entity_def empty_memory_def)
  have old: "facts (memory tool_with_entity) = []"
    by (simp add: tool_with_entity_def empty_memory_def)
  have clk: "now sample_world = 1000" "clock sample_world (Suc (ticks sample_world)) = 51000"
    by (simp_all add: now_def sample_world_def)
  note h = store_entity_information_frame [of tool_with_entity "''Acme''" ?e "''info2''" sample_world,
      unfolded case_prod_beta Let_def, rule_format, OF present]
  from h
  have "map_of (entities (memory (fst (snd ?r)))) ''Acme'' =
          Some (?e\<lparr>information := information ?e @ [''info2''], e_last_updated := now sample_world\<rparr>)"
    and "facts (memory (fst (snd ?r))) = facts (memory tool_with_entity)"
    and "memory (fst (snd ?r)) =
          (memory tool_with_entity)\<lparr>entities := AList.update ''Acme''
             (?e\<lparr>information := information ?e @ [''info2''], e_last_updated := now sample_world\<rparr>)
             (entities (memory tool_with_entity)),
             last_updated := clock sample_world (Suc (ticks sample_world))\<rparr>"
    by blast+
  then show ?thesis
    by (simp add: old clk)
qed

text \<open>
  Claim C10. When the file for a query holds an entry whose stamp is less than 86400
  seconds old and whose \<^verbatim>\<open>results\<close> are missing or count as false, \<^verbatim>\<open>search\<close> does
  not use it: it answers with the three simulated results and overwrites the entry with
  them, stamped with its second reading of the clock.
\<close>

theorem fresh_entry_with_falsy_results_is_recomputed:
  "files w (get_cache_path L self q) = Some (Doc (JObj kvs))
   \<and> map_of kvs ''timestamp'' = Some ts \<and> float_minus (now w) ts = Inr age \<and> age < 86400
   \<and> (case map_of kvs ''results'' of None \<Rightarrow> True | Some r \<Rightarrow> \<not> truthy r)
   \<longrightarrow>
   (let (answer, w2) = search L self q w in
      answer = simulated_text q
    \<and> format_results L (simulated_results q) q = Inr answer
    \<and> files w2 (get_cache_path L self q) =
        Some (Doc (JObj [(''timestamp'', JFloat (clock w (Suc (ticks w)))), (''query'', JStr q),
                         (''results'', simulated_results q)]))
    \<and> ticks w2 = Suc (Suc (ticks w)))"
proof (intro impI, elim conjE)
  assume entry: "files w (get_cache_path L self q) = Some (Doc (JObj kvs))"
    and stamp: "map_of kvs ''timestamp'' = Some ts" and age: "float_minus (now w) ts = Inr age"
    and fresh: "age < 86400"
    and falsy: "case map_of kvs ''results'' of None \<Rightarrow> True | Some r \<Rightarrow> \<not> truthy r"
  let ?r = "case map_of kvs ''results'' of Some v \<Rightarrow> v | None \<Rightarrow> JNull"
  have miss: "\<not> truthy ?r"
    using falsy by (cases "map_of kvs ''results''") simp_all
  note got = get_cached_result_fresh_dict [OF entry stamp age fresh]
  show "(let (answer, w2) = search L self q w in
      answer = simulated_text q
    \<and> format_results L (simulated_results q) q = Inr answer
    \<and> files w2 (get_cache_path L self q) =
        Some (Doc (JObj [(''timestamp'', JFloat (clock w (Suc (ticks w)))), (''query'', JStr q),
                         (''results'', simulated_results q)]))
    \<and> ticks w2 = Suc (Suc (ticks w)))"
    by (simp add: search_recomputes [OF got miss] format_simulated_results cache_result_eq)
qed

theorem fresh_entry_with_falsy_results_is_recomputed_witness:
  "fst (search sample_lib sample_search ''q'' world_with_empty_results) = simulated_text ''q''
   \<and> files (snd (search sample_lib sample_search ''q'' world_with_empty_results))
        ''.cache/search_q.json'' =
      Some (Doc (JObj [(''timestamp'', JFloat 51000), (''query'', JStr ''q''),
                       (''results'', simulated_results ''q'')]))"
proof -
  let ?kvs = "[(''timestamp'', JFloat 900), (''query'', JStr ''q''), (''results'', JObj [])]"
  have path: "get_cache_path sample_lib sample_search ''q'' = ''.cache/search_q.json''"
    by (simp add: get_cache_path_def os_path_join_def sample_lib_def sample_search_def)
  have entry: "files world_with_empty_results (get_cache_path sample_lib sample_search ''q'') =
      Some (Doc (JObj ?kvs))"
    unfolding path by (simp add: world_with_empty_results_def)
  have stamp: "map_of ?kvs ''timestamp'' = Some (JFloat 900)"
    by simp
  have age: "float_minus (now world_with_empty_results) (JFloat 900) = Inr 100"
    by (simp add: now_def world_with_empty_results_def sample_world_def)
  have falsy: "case map_of ?kvs ''results'' of None \<Rightarrow> True | Some r \<Rightarrow> \<not> truthy r"
    by simp
  have clk: "clock world_with_empty_results (Suc (ticks world_with_empty_results)) = 51000"
    by (simp add: world_with_empty_results_def sample_world_def)
  have fresh: "(100::real) < 86400"
    by simp
  note h = fresh_entry_with_falsy_results_is_recomputed [of world_with_empty_results sample_lib
      sample_search "''q''" ?kvs "JFloat 900" 100, unfolded case_prod_beta Let_def, rule_format,
      OF conjI [OF entry conjI [OF stamp conjI [OF age conjI [OF fresh falsy]]]]]
  from h
  have "fst (search sample_lib sample_search ''q'' world_with_empty_results) = simulated_text ''q''"
    and "files (snd (search sample_lib sample_search ''q'' world_with_empty_results))
          (get_cache_path sample_lib sample_search ''q'') =
        Some (Doc (JObj [(''timestamp'',
                          JFloat (clock world_with_empty_results (Suc (ticks world_with_empty_results)))),
                         (''query'', JStr ''q''), (''results'', simulated_results ''q'')]))"
    by blast+
  then show ?thesis
    unfolding path clk by simp
qed

end
